theory Spec2Isabelle
  imports Main "HOL-Library.AList"
begin

section \<open>JavaScript values used by the adapters\<close>

text \<open>
  Strings are byte strings: the UTF-8 form of a well-formed JavaScript string. All the
  string operations of the source (\<open>endsWith('/')\<close>, \<open>slice(0, -1)\<close>, \<open>includes\<close>,
  concatenation, \<open>join\<close>) look at ASCII characters only and so act on the UTF-8 form as
  they do on the UTF-16 form. A string with an unpaired surrogate has no UTF-8 form; on
  such a string \<open>encodeURIComponent\<close> raises a URIError, which this model leaves out.

  A thrown value is either an instance of \<open>Error\<close> (with its message) or some other value
  (with what \<open>String(v)\<close> gives for it).
\<close>

datatype thrown = JsError string | NonError string

text \<open>\<open>error instanceof Error ? error.message : String(error)\<close>\<close>

fun message_of :: "thrown \<Rightarrow> string" where
  "message_of (JsError m) = m"
| "message_of (NonError s) = s"

text \<open>
  Truthiness of an optional string parameter (\<open>undefined\<close> and the empty string are
  falsy) and of an optional number (\<open>undefined\<close> and \<open>0\<close> are falsy). Numbers are
  integers here: \<open>top\<close> is a page size. Fractions, \<open>NaN\<close>, infinities and magnitudes
  from \<open>10^21\<close> on, where JavaScript switches to exponent notation, are not modelled.
\<close>

fun truthy :: "string option \<Rightarrow> bool" where
  "truthy None = False"
| "truthy (Some s) = (s \<noteq> [])"

fun truthyNum :: "int option \<Rightarrow> bool" where
  "truthyNum None = False"
| "truthyNum (Some n) = (n \<noteq> 0)"

text \<open>A value inside a template literal: \<open>`${x}`\<close>.\<close>

fun str :: "string option \<Rightarrow> string" where
  "str None = ''undefined''"
| "str (Some s) = s"

definition digit :: "nat \<Rightarrow> char" where
  "digit n = ''0123456789'' ! (n mod 10)"

fun digitsOf :: "nat \<Rightarrow> string" where
  "digitsOf n = (if n < 10 then [digit n] else digitsOf (n div 10) @ [digit n])"

declare digitsOf.simps [simp del]

definition numberToString :: "int \<Rightarrow> string" where
  "numberToString i = (if i < 0 then CHR ''-'' # digitsOf (nat (- i)) else digitsOf (nat i))"

fun strNum :: "int option \<Rightarrow> string" where
  "strNum None = ''undefined''"
| "strNum (Some n) = numberToString n"

fun strBool :: "bool \<Rightarrow> string" where
  "strBool True = ''true''"
| "strBool False = ''false''"

text \<open>\<open>s.endsWith(t)\<close>, \<open>s.startsWith(t)\<close> and \<open>s.includes(t)\<close>.\<close>

definition endsWith :: "string \<Rightarrow> string \<Rightarrow> bool" where
  "endsWith s t = (length t \<le> length s \<and> drop (length s - length t) s = t)"

definition startsWith :: "string \<Rightarrow> string \<Rightarrow> bool" where
  "startsWith s t = (take (length t) s = t)"

fun includesStr :: "string \<Rightarrow> string \<Rightarrow> bool" where
  "includesStr [] t = (t = [])"
| "includesStr (c # cs) t = (startsWith (c # cs) t \<or> includesStr cs t)"

text \<open>\<open>xs.join(sep)\<close>\<close>

fun join :: "string \<Rightarrow> string list \<Rightarrow> string" where
  "join sep [] = []"
| "join sep [x] = x"
| "join sep (x # y # ys) = x @ sep @ join sep (y # ys)"

text \<open>
  \<open>encodeURIComponent\<close> (ECMAScript, Encode with the unreserved set of URI components):
  letters, digits and \<open>- _ . ! ~ * ' ( )\<close> stay; every other byte of the UTF-8 form
  becomes \<open>%XX\<close> in upper-case hexadecimal.
\<close>

definition uriUnreserved :: "char \<Rightarrow> bool" where
  "uriUnreserved c =
     (c \<in> set ''ABCDEFGHIJKLMNOPQRSTUVWXYZabcdefghijklmnopqrstuvwxyz0123456789-_.!~*()''
      \<or> c = CHR 0x27)"

definition hexDigit :: "nat \<Rightarrow> char" where
  "hexDigit n = ''0123456789ABCDEF'' ! (n mod 16)"

definition encodeChar :: "char \<Rightarrow> string" where
  "encodeChar c =
     (if uriUnreserved c then [c]
      else [CHR ''%'', hexDigit (of_char c div 16), hexDigit (of_char c)])"

definition encodeURIComponent :: "string \<Rightarrow> string" where
  "encodeURIComponent s = concat (map encodeChar s)"

section \<open>The platform: fetch, responses, JSON\<close>

text \<open>
  A plain object with string values (\<open>Record<string, string>\<close>) is an association list
  in insertion order; \<open>obj[k] = v\<close> is \<open>AList.update k v\<close>, which overwrites the value of a
  key that is there and appends a new key.
\<close>

type_synonym headers_obj = "(string \<times> string) list"

record request =
  req_url :: string
  req_method :: string
  req_headers :: headers_obj

text \<open>
  A \<open>Response\<close> of the Fetch standard. \<open>resp_headers\<close> lists the entries of its
  \<open>Headers\<close> object in the order \<open>forEach\<close> visits them (names in lower case).
  \<open>resp_body\<close> is \<open>None\<close> for a null body; otherwise it is what reading the body stream to
  its end gives: the decoded text, or the exception of a stream that fails.
\<close>

record response =
  resp_status :: int
  resp_statusText :: string
  resp_headers :: "(string \<times> string) list"
  resp_body :: "(thrown + string) option"

text \<open>\<open>response.ok\<close>: the status is an ok status, 200 to 299 (Fetch standard).\<close>

definition ok :: "response \<Rightarrow> bool" where
  "ok r = (200 \<le> resp_status r \<and> resp_status r \<le> 299)"

text \<open>\<open>response.headers.get(name)\<close>, \<open>null\<close> when there is no such header.\<close>

definition headers_get :: "(string \<times> string) list \<Rightarrow> string \<Rightarrow> string option" where
  "headers_get hs name = map_of hs name"

text \<open>
  What the adapters cannot decide themselves: the network behind \<open>fetch\<close>, the JSON
  parser (its result in a type \<open>'j\<close> of JSON values, or the SyntaxError it throws), and
  the TypeError with which the runtime rejects a read of a body that was read before.
\<close>

record 'j platform =
  fetch :: "request \<Rightarrow> thrown + response"
  JSON_parse :: "string \<Rightarrow> thrown + 'j"
  bodyUnusable :: thrown

text \<open>
  Reading a body (Fetch standard, "consume body"): a body that is not null and was
  read before is unusable and the read is rejected with a TypeError; a null body reads as
  the empty byte sequence; otherwise the stream is read to its end, which disturbs it.
  The flag says whether the body has been read; the new flag is returned with the result.
\<close>

definition consumeBody :: "'j platform \<Rightarrow> response \<Rightarrow> bool \<Rightarrow> (thrown + string) \<times> bool" where
  "consumeBody pf r used =
     (case resp_body r of
        None \<Rightarrow> (Inr [], used)
      | Some b \<Rightarrow> if used then (Inl (bodyUnusable pf), True) else (b, True))"

text \<open>\<open>response.text()\<close> and \<open>response.json()\<close>\<close>

definition text_body :: "'j platform \<Rightarrow> response \<Rightarrow> bool \<Rightarrow> (thrown + string) \<times> bool" where
  "text_body pf r used = consumeBody pf r used"

definition json_body :: "'j platform \<Rightarrow> response \<Rightarrow> bool \<Rightarrow> (thrown + 'j) \<times> bool" where
  "json_body pf r used =
     (case consumeBody pf r used of
        (Inl e, u) \<Rightarrow> (Inl e, u)
      | (Inr t, u) \<Rightarrow> (JSON_parse pf t, u))"

section \<open>The response normalizer (the same block in every adapter)\<close>

text \<open>\<open>responseBody\<close>: a parsed JSON value or the raw text.\<close>

datatype 'j decoded = Json 'j | Text string

text \<open>
  The envelope is an object literal; a key that a literal does not write is \<open>None\<close>.
\<close>

record 'j envelope =
  success :: bool
  status :: int
  statusText :: string
  data :: "'j decoded option"
  error :: "'j decoded option"
  url :: string
  headers :: "headers_obj option"

text \<open>
  \<open>response.headers.forEach((value, key) => { responseHeaders[key] = value; })\<close>
\<close>

definition captureHeaders :: "(string \<times> string) list \<Rightarrow> headers_obj" where
  "captureHeaders hs = fold (\<lambda>(key, v) responseHeaders. AList.update key v responseHeaders) hs []"

text \<open>
  The decoding block: when the content type names JSON, \<open>response.json()\<close> inside a
  \<open>try\<close> whose \<open>catch\<close> calls \<open>response.text()\<close> on the same response; otherwise
  \<open>response.text()\<close>. An exception that leaves the block is \<open>Inl\<close>.
\<close>

definition isJson :: "response \<Rightarrow> bool" where
  "isJson r =
     (let contentType = headers_get (resp_headers r) ''content-type''
      in truthy contentType \<and> includesStr (str contentType) ''application/json'')"

definition decodeBody :: "'j platform \<Rightarrow> response \<Rightarrow> thrown + 'j decoded" where
  "decodeBody pf r =
     (if isJson r then
        (case json_body pf r False of
           (Inr v, used) \<Rightarrow> Inr (Json v)
         | (Inl e, used) \<Rightarrow>
             (case text_body pf r used of
                (Inr t, used') \<Rightarrow> Inr (Text t)
              | (Inl e', used') \<Rightarrow> Inl e'))
      else
        (case text_body pf r False of
           (Inr t, used) \<Rightarrow> Inr (Text t)
         | (Inl e, used) \<Rightarrow> Inl e))"

text \<open>From the response to the returned object: the two \<open>return\<close> statements.\<close>

definition normalize :: "'j platform \<Rightarrow> string \<Rightarrow> response \<Rightarrow> thrown + 'j envelope" where
  "normalize pf fullUrl r =
     (let responseHeaders = captureHeaders (resp_headers r) in
      case decodeBody pf r of
        Inl e \<Rightarrow> Inl e
      | Inr responseBody \<Rightarrow>
          if \<not> ok r then
            Inr \<lparr>success = False, status = resp_status r, statusText = resp_statusText r,
                 data = None, error = Some responseBody, url = fullUrl, headers = None\<rparr>
          else
            Inr \<lparr>success = True, status = resp_status r, statusText = resp_statusText r,
                 data = Some responseBody, error = None, url = fullUrl,
                 headers = Some responseHeaders\<rparr>)"

text \<open>The body of the \<open>try\<close>: the call of \<open>fetch\<close>, then the normalizer.\<close>

definition tryBlock :: "'j platform \<Rightarrow> request \<Rightarrow> thrown + 'j envelope" where
  "tryBlock pf req =
     (case fetch pf req of
        Inl e \<Rightarrow> Inl e
      | Inr r \<Rightarrow> normalize pf (req_url req) r)"

text \<open>
  The \<open>catch\<close>: \<open>throw new Error(`<label> ${error instanceof Error ? error.message :
  String(error)}`)\<close>.
\<close>

definition catchWrap :: "string \<Rightarrow> thrown + 'a \<Rightarrow> thrown + 'a" where
  "catchWrap label res =
     (case res of
        Inl e \<Rightarrow> Inl (JsError (label @ message_of e))
      | Inr v \<Rightarrow> Inr v)"

section \<open>cmsContentDelivery\<close>

record CmsContentDeliveryParameters =
  cmsUrl :: string
  authToken :: string
  operation :: string
  contentReference :: "string option"
  contentGuid :: "string option"
  siteId :: "string option"
  contentUrl :: "string option"
  language :: "string option"
  expand :: "string option"
  select :: "string option"
  top_param :: "int option"

text \<open>\<open>cmsUrl.endsWith('/') ? cmsUrl.slice(0, -1) : cmsUrl\<close>\<close>

definition baseUrl :: "string \<Rightarrow> string" where
  "baseUrl cmsUrl' = (if endsWith cmsUrl' ''/'' then butlast cmsUrl' else cmsUrl')"

text \<open>The case labels of the \<open>switch\<close>, in their order.\<close>

definition known_operations :: "string list" where
  "known_operations =
     [''get-all-sites'', ''get-site-by-id'', ''get-content-by-reference'',
      ''get-content-by-guid'', ''get-content-by-url'', ''get-children'']"

text \<open>
  The \<open>switch\<close>: the error it throws, or \<open>apiPath\<close> and \<open>queryParams\<close> as they stand
  after it.
\<close>

definition dispatch :: "CmsContentDeliveryParameters \<Rightarrow> thrown + (string \<times> string list)" where
  "dispatch p =
     (if operation p = ''get-all-sites'' then
        Inr (''/api/episerver/v3.0/site'', [])
      else if operation p = ''get-site-by-id'' then
        (if \<not> truthy (siteId p) then
           Inl (JsError ''siteId is required for get-site-by-id operation'')
         else Inr (''/api/episerver/v3.0/site/'' @ str (siteId p), []))
      else if operation p = ''get-content-by-reference'' then
        (if \<not> truthy (contentReference p) then
           Inl (JsError ''contentReference is required for get-content-by-reference operation'')
         else Inr (''/api/episerver/v3.0/content/'' @ str (contentReference p), []))
      else if operation p = ''get-content-by-guid'' then
        (if \<not> truthy (contentGuid p) then
           Inl (JsError ''contentGuid is required for get-content-by-guid operation'')
         else Inr (''/api/episerver/v3.0/content/'' @ str (contentGuid p), []))
      else if operation p = ''get-content-by-url'' then
        (if \<not> truthy (contentUrl p) then
           Inl (JsError ''contentUrl is required for get-content-by-url operation'')
         else Inr (''/api/episerver/v3.0/content'',
                   [''contentUrl='' @ encodeURIComponent (str (contentUrl p))]))
      else if operation p = ''get-children'' then
        (if \<not> truthy (contentReference p) \<and> \<not> truthy (contentGuid p) then
           Inl (JsError
             ''Either contentReference or contentGuid is required for get-children operation'')
         else
           Inr (if truthy (contentReference p)
                then ''/api/episerver/v3.0/content/'' @ str (contentReference p) @ ''/children''
                else ''/api/episerver/v3.0/content/'' @ str (contentGuid p) @ ''/children'',
                if truthyNum (top_param p) then [''top='' @ strNum (top_param p)] else []))
      else Inl (JsError (''Unknown operation: '' @ operation p)))"

text \<open>The common query parameters, pushed after the \<open>switch\<close>.\<close>

definition commonParams :: "CmsContentDeliveryParameters \<Rightarrow> string list" where
  "commonParams p =
     (if truthy (expand p) then [''expand='' @ encodeURIComponent (str (expand p))] else [])
     @ (if truthy (select p) then [''select='' @ encodeURIComponent (str (select p))] else [])"

text \<open>
  \<open>`${baseUrl}${apiPath}${queryParams.length > 0 ? '?' + queryParams.join('&') : ''}`\<close>
\<close>

definition queryString :: "string list \<Rightarrow> string" where
  "queryString queryParams =
     (if length queryParams > 0 then ''?'' @ join ''&'' queryParams else [])"

text \<open>Everything before the \<open>try\<close>: the thrown error, or \<open>fullUrl\<close>.\<close>

definition resolveUrl :: "CmsContentDeliveryParameters \<Rightarrow> thrown + string" where
  "resolveUrl p =
     (case dispatch p of
        Inl e \<Rightarrow> Inl e
      | Inr (apiPath, queryParams) \<Rightarrow>
          Inr (baseUrl (cmsUrl p) @ apiPath @ queryString (queryParams @ commonParams p)))"

definition deliveryHeaders :: "CmsContentDeliveryParameters \<Rightarrow> headers_obj" where
  "deliveryHeaders p =
     (let hs = [(''Accept'', ''application/json''),
                (''Content-Type'', ''application/json''),
                (''Authorization'', ''Bearer '' @ authToken p)]
      in if truthy (language p) then AList.update ''Accept-Language'' (str (language p)) hs
         else hs)"

text \<open>
  The adapter. Its result is what the \<open>async\<close> function settles with (\<open>Inl\<close>: the
  rejection, \<open>Inr\<close>: the returned envelope) and the requests it passed to \<open>fetch\<close>.
\<close>

definition cmsContentDelivery ::
  "'j platform \<Rightarrow> CmsContentDeliveryParameters \<Rightarrow> (thrown + 'j envelope) \<times> request list" where
  "cmsContentDelivery pf p =
     (case resolveUrl p of
        Inl e \<Rightarrow> (Inl e, [])
      | Inr fullUrl \<Rightarrow>
          (let req = \<lparr>req_url = fullUrl, req_method = ''GET'', req_headers = deliveryHeaders p\<rparr>
           in (catchWrap ''CMS Content Delivery API call failed: '' (tryBlock pf req), [req])))"

section \<open>cmsContentManifest\<close>

record CmsContentManifestParameters =
  m_cmsUrl :: string
  m_authToken :: "string option"
  includeSystemTypes :: "bool option"

definition manifestUrl :: "CmsContentManifestParameters \<Rightarrow> string" where
  "manifestUrl p =
     baseUrl (m_cmsUrl p) @ ''/api/episerver/v3.0/contentmanifest''
       @ (case includeSystemTypes p of
            None \<Rightarrow> []
          | Some b \<Rightarrow> ''?includeSystemTypes='' @ strBool b)"

definition manifestHeaders :: "CmsContentManifestParameters \<Rightarrow> headers_obj" where
  "manifestHeaders p =
     (let hs = [(''Accept'', ''application/json''), (''Content-Type'', ''application/json'')]
      in if truthy (m_authToken p)
         then AList.update ''Authorization'' (''Bearer '' @ str (m_authToken p)) hs
         else hs)"

definition cmsContentManifest ::
  "'j platform \<Rightarrow> CmsContentManifestParameters \<Rightarrow> (thrown + 'j envelope) \<times> request list" where
  "cmsContentManifest pf p =
     (let req = \<lparr>req_url = manifestUrl p, req_method = ''GET'', req_headers = manifestHeaders p\<rparr>
      in (catchWrap ''CMS Content Manifest API call failed: '' (tryBlock pf req), [req]))"

section \<open>The parameter object and the declared query parameters\<close>

text \<open>
  The caller passes a plain object; the adapter reads it by destructuring, that is by
  key. An object is the list of its own properties in insertion order, which is the
  order the caller wrote them in, with no key twice. \<open>destructure\<close> reads an object of the
  interface \<open>CmsContentDeliveryParameters\<close>; an object without the three required strings
  is not of that type and gives \<open>None\<close>.
\<close>

datatype jsval = Str string | Num int

type_synonym object = "(string \<times> jsval) list"

definition getString :: "object \<Rightarrow> string \<Rightarrow> string option" where
  "getString ob k = (case map_of ob k of Some (Str s) \<Rightarrow> Some s | _ \<Rightarrow> None)"

definition getNumber :: "object \<Rightarrow> string \<Rightarrow> int option" where
  "getNumber ob k = (case map_of ob k of Some (Num n) \<Rightarrow> Some n | _ \<Rightarrow> None)"

definition destructure :: "object \<Rightarrow> CmsContentDeliveryParameters option" where
  "destructure ob =
     (case (getString ob ''cmsUrl'', getString ob ''authToken'', getString ob ''operation'') of
        (Some u, Some a, Some opn) \<Rightarrow>
          Some \<lparr>cmsUrl = u, authToken = a, operation = opn,
                contentReference = getString ob ''contentReference'',
                contentGuid = getString ob ''contentGuid'',
                siteId = getString ob ''siteId'',
                contentUrl = getString ob ''contentUrl'',
                language = getString ob ''language'',
                expand = getString ob ''expand'',
                select = getString ob ''select'',
                top_param = getNumber ob ''top''\<rparr>
      | _ \<Rightarrow> None)"



section \<open>Test doubles\<close>

text \<open>
  A JSON parser that knows the one document \<open>null\<close>, a network that answers every
  request with a given response, a network that is down, and a parameter object with
  nothing optional in it.
\<close>

definition mockParse :: "string \<Rightarrow> thrown + unit" where
  "mockParse s = (if s = ''null'' then Inr () else Inl (JsError ''Unexpected token in JSON''))"

definition mockPlatform :: "response \<Rightarrow> unit platform" where
  "mockPlatform r =
     \<lparr>fetch = (\<lambda>req. Inr r), JSON_parse = mockParse,
      bodyUnusable = JsError ''Body is unusable''\<rparr>"

definition downPlatform :: "unit platform" where
  "downPlatform =
     \<lparr>fetch = (\<lambda>req. Inl (JsError ''fetch failed'')), JSON_parse = mockParse,
      bodyUnusable = JsError ''Body is unusable''\<rparr>"

definition mockResponse :: "int \<Rightarrow> string \<Rightarrow> string \<Rightarrow> response" where
  "mockResponse code ctype body =
     \<lparr>resp_status = code, resp_statusText = ''OK'',
      resp_headers = [(''content-type'', ctype), (''x-powered-by'', ''cms'')],
      resp_body = Some (Inr body)\<rparr>"

definition plainParams :: "string \<Rightarrow> CmsContentDeliveryParameters" where
  "plainParams opn =
     \<lparr>cmsUrl = ''https://host.example'', authToken = ''secret'', operation = opn,
      contentReference = None, contentGuid = None, siteId = None, contentUrl = None,
      language = None, expand = None, select = None, top_param = None\<rparr>"

section \<open>Facts about the URL builder and the dispatcher\<close>

lemma endsWith_slash_iff: "endsWith s ''/'' \<longleftrightarrow> s \<noteq> [] \<and> last s = CHR ''/''"
proof (cases s rule: rev_cases)
  case Nil
  then show ?thesis by (simp add: endsWith_def)
next
  case (snoc ys y)
  then show ?thesis by (auto simp: endsWith_def)
qed

lemma baseUrl_snoc: "baseUrl (s @ ''/'') = s"
  by (simp add: baseUrl_def endsWith_slash_iff)

lemma baseUrl_keep: "\<not> endsWith s ''/'' \<Longrightarrow> baseUrl s = s"
  by (simp add: baseUrl_def)

lemma dispatch_unknown:
  "operation p \<notin> set known_operations \<Longrightarrow>
     dispatch p = Inl (JsError (''Unknown operation: '' @ operation p))"
  by (simp add: dispatch_def known_operations_def)

lemma dispatch_path_prefix:
  assumes "dispatch p = Inr (apiPath, ops)"
  shows "\<exists>rest. apiPath = ''/api/episerver/v3.0/'' @ rest"
  using assms by (auto simp: dispatch_def split: if_splits)

lemma delivery_preflight:
  "resolveUrl p = Inl e \<Longrightarrow> cmsContentDelivery pf p = (Inl e, [])"
  by (simp add: cmsContentDelivery_def)

lemma resolveUrl_dispatch_Inl: "dispatch p = Inl e \<Longrightarrow> resolveUrl p = Inl e"
  by (simp add: resolveUrl_def)

section \<open>Pre-flight validation\<close>

text \<open>
  Claim C2. A call of \<open>cmsContentDelivery\<close> whose operation identifier is not one of the
  six known ones, or whose operation is known but whose required identifying parameter
  is absent (for get-children: both alternatives are absent), ends with a thrown error
  and not with an envelope, and no request has been passed to \<open>fetch\<close>: the list of
  requests is empty, whatever the platform. For the identifier \<open>delete-content\<close> the
  message of the error contains \<open>Unknown operation: delete-content\<close>. (The function is
  \<open>async\<close>: its throw reaches the caller as the rejection of the returned promise; the
  model does not tell the two apart.)
\<close>

theorem preflight_errors_before_fetch:
  "(operation p \<notin> set known_operations \<longrightarrow>
      cmsContentDelivery pf p = (Inl (JsError (''Unknown operation: '' @ operation p)), []))
   \<and> (operation p = ''get-site-by-id'' \<and> siteId p = None \<longrightarrow>
      cmsContentDelivery pf p =
        (Inl (JsError ''siteId is required for get-site-by-id operation''), []))
   \<and> (operation p = ''get-content-by-reference'' \<and> contentReference p = None \<longrightarrow>
      cmsContentDelivery pf p =
        (Inl (JsError ''contentReference is required for get-content-by-reference operation''), []))
   \<and> (operation p = ''get-content-by-guid'' \<and> contentGuid p = None \<longrightarrow>
      cmsContentDelivery pf p =
        (Inl (JsError ''contentGuid is required for get-content-by-guid operation''), []))
   \<and> (operation p = ''get-content-by-url'' \<and> contentUrl p = None \<longrightarrow>
      cmsContentDelivery pf p =
        (Inl (JsError ''contentUrl is required for get-content-by-url operation''), []))
   \<and> (operation p = ''get-children'' \<and> contentReference p = None \<and> contentGuid p = None \<longrightarrow>
      cmsContentDelivery pf p =
        (Inl (JsError
           ''Either contentReference or contentGuid is required for get-children operation''), []))
   \<and> (operation p = ''delete-content'' \<longrightarrow>
      (\<exists>m. cmsContentDelivery pf p = (Inl (JsError m), [])
           \<and> includesStr m ''Unknown operation: delete-content''))"
proof (intro conjI impI)
  assume "operation p \<notin> set known_operations"
  then show "cmsContentDelivery pf p = (Inl (JsError (''Unknown operation: '' @ operation p)), [])"
    by (intro delivery_preflight resolveUrl_dispatch_Inl dispatch_unknown)
next
  assume "operation p = ''get-site-by-id'' \<and> siteId p = None"
  then show "cmsContentDelivery pf p =
        (Inl (JsError ''siteId is required for get-site-by-id operation''), [])"
    by (intro delivery_preflight resolveUrl_dispatch_Inl) (simp add: dispatch_def)
next
  assume "operation p = ''get-content-by-reference'' \<and> contentReference p = None"
  then show "cmsContentDelivery pf p =
        (Inl (JsError ''contentReference is required for get-content-by-reference operation''), [])"
    by (intro delivery_preflight resolveUrl_dispatch_Inl) (simp add: dispatch_def)
next
  assume "operation p = ''get-content-by-guid'' \<and> contentGuid p = None"
  then show "cmsContentDelivery pf p =
        (Inl (JsError ''contentGuid is required for get-content-by-guid operation''), [])"
    by (intro delivery_preflight resolveUrl_dispatch_Inl) (simp add: dispatch_def)
next
  assume "operation p = ''get-content-by-url'' \<and> contentUrl p = None"
  then show "cmsContentDelivery pf p =
        (Inl (JsError ''contentUrl is required for get-content-by-url operation''), [])"
    by (intro delivery_preflight resolveUrl_dispatch_Inl) (simp add: dispatch_def)
next
  assume "operation p = ''get-children'' \<and> contentReference p = None \<and> contentGuid p = None"
  then show "cmsContentDelivery pf p =
        (Inl (JsError
           ''Either contentReference or contentGuid is required for get-children operation''), [])"
    by (intro delivery_preflight resolveUrl_dispatch_Inl) (simp add: dispatch_def)
next
  assume op: "operation p = ''delete-content''"
  then have "operation p \<notin> set known_operations"
    by (simp add: known_operations_def)
  then have "cmsContentDelivery pf p =
      (Inl (JsError (''Unknown operation: '' @ operation p)), [])"
    by (intro delivery_preflight resolveUrl_dispatch_Inl dispatch_unknown)
  moreover have "includesStr (''Unknown operation: '' @ operation p)
      ''Unknown operation: delete-content''"
    unfolding op by (simp add: startsWith_def)
  ultimately show "\<exists>m. cmsContentDelivery pf p = (Inl (JsError m), [])
           \<and> includesStr m ''Unknown operation: delete-content''"
    by blast
qed

theorem preflight_errors_before_fetch_witness:
  "cmsContentDelivery downPlatform (plainParams ''delete-content'')
     = (Inl (JsError ''Unknown operation: delete-content''), [])
   \<and> cmsContentDelivery downPlatform (plainParams ''get-site-by-id'')
     = (Inl (JsError ''siteId is required for get-site-by-id operation''), [])
   \<and> cmsContentDelivery downPlatform (plainParams ''get-children'')
     = (Inl (JsError
           ''Either contentReference or contentGuid is required for get-children operation''), [])"
  using preflight_errors_before_fetch [of "plainParams ''delete-content''" downPlatform]
        preflight_errors_before_fetch [of "plainParams ''get-site-by-id''" downPlatform]
        preflight_errors_before_fetch [of "plainParams ''get-children''" downPlatform]
  by (simp add: plainParams_def known_operations_def)

lemma resolveUrl_Inr:
  assumes "resolveUrl p = Inr u"
  shows "\<exists>apiPath ops. dispatch p = Inr (apiPath, ops)
           \<and> u = baseUrl (cmsUrl p) @ apiPath @ queryString (ops @ commonParams p)"
  using assms by (auto simp: resolveUrl_def split: sum.splits)

lemma commonParams_absent:
  "\<not> truthy (expand p) \<Longrightarrow> \<not> truthy (select p) \<Longrightarrow> commonParams p = []"
  by (simp add: commonParams_def)

section \<open>The base URL\<close>

text \<open>
  Claim C3. From a base URL that ends in \<open>/\<close> exactly that last character is removed,
  whatever stands before it (also another \<open>/\<close>); a base URL that does not end in \<open>/\<close>
  is kept as it is. So for an origin that does not end in a slash, given with or without
  one trailing slash, the resolved URL is the origin, one slash and the path, which goes
  on with \<open>api\<close>. The operation get-content-by-reference with \<open>contentReference = "5"\<close>,
  the base \<open>https://host.example\<close> and no expand or select resolves to
  \<open>https://host.example/api/episerver/v3.0/content/5\<close>.
\<close>

theorem base_url_single_slash:
  "baseUrl (s @ ''/'') = s
   \<and> (\<not> endsWith s ''/'' \<longrightarrow> baseUrl s = s)
   \<and> (\<not> endsWith origin ''/'' \<and> (cmsUrl p = origin \<or> cmsUrl p = origin @ ''/'')
        \<and> resolveUrl p = Inr u \<longrightarrow>
        (\<exists>rest. u = origin @ ''/'' @ ''api/episerver/v3.0/'' @ rest))
   \<and> (operation p = ''get-content-by-reference'' \<and> contentReference p = Some ''5''
        \<and> cmsUrl p = ''https://host.example'' \<and> expand p = None \<and> select p = None \<longrightarrow>
        resolveUrl p = Inr ''https://host.example/api/episerver/v3.0/content/5'')"
proof (intro conjI impI)
  show "baseUrl (s @ ''/'') = s" by (rule baseUrl_snoc)
next
  assume "\<not> endsWith s ''/''"
  then show "baseUrl s = s" by (rule baseUrl_keep)
next
  assume a: "\<not> endsWith origin ''/'' \<and> (cmsUrl p = origin \<or> cmsUrl p = origin @ ''/'')
        \<and> resolveUrl p = Inr u"
  then have base: "baseUrl (cmsUrl p) = origin"
    using baseUrl_snoc [of origin] baseUrl_keep [of origin] by auto
  from a obtain apiPath ops where d: "dispatch p = Inr (apiPath, ops)"
    and u: "u = baseUrl (cmsUrl p) @ apiPath @ queryString (ops @ commonParams p)"
    using resolveUrl_Inr by blast
  from d obtain rest where "apiPath = ''/api/episerver/v3.0/'' @ rest"
    using dispatch_path_prefix by blast
  with u base have "u = origin @ ''/'' @ ''api/episerver/v3.0/''
      @ (rest @ queryString (ops @ commonParams p))"
    by simp
  then show "\<exists>rest. u = origin @ ''/'' @ ''api/episerver/v3.0/'' @ rest" by blast
next
  assume a: "operation p = ''get-content-by-reference'' \<and> contentReference p = Some ''5''
        \<and> cmsUrl p = ''https://host.example'' \<and> expand p = None \<and> select p = None"
  then have "dispatch p = Inr (''/api/episerver/v3.0/content/5'', [])"
    by (simp add: dispatch_def)
  moreover from a have "commonParams p = []" by (simp add: commonParams_def)
  moreover from a have "baseUrl (cmsUrl p) = ''https://host.example''"
    by (simp add: baseUrl_def endsWith_slash_iff)
  ultimately show "resolveUrl p = Inr ''https://host.example/api/episerver/v3.0/content/5''"
    by (simp add: resolveUrl_def queryString_def)
qed

theorem base_url_single_slash_witness:
  "\<not> endsWith ''https://host.example'' ''/''
   \<and> baseUrl ''https://host.example'' = ''https://host.example''
   \<and> baseUrl ''https://host.example/'' = ''https://host.example''
   \<and> baseUrl ''https://host.example//'' = ''https://host.example/''
   \<and> resolveUrl ((plainParams ''get-content-by-reference'')
          \<lparr>cmsUrl := ''https://host.example/'', contentReference := Some ''5''\<rparr>)
       = Inr ''https://host.example/api/episerver/v3.0/content/5''
   \<and> resolveUrl ((plainParams ''get-content-by-reference'')\<lparr>contentReference := Some ''5''\<rparr>)
       = Inr ''https://host.example/api/episerver/v3.0/content/5''"
proof -
  let ?p = "(plainParams ''get-content-by-reference'')\<lparr>contentReference := Some ''5''\<rparr>"
  let ?q = "(plainParams ''get-content-by-reference'')
          \<lparr>cmsUrl := ''https://host.example/'', contentReference := Some ''5''\<rparr>"
  have n: "\<not> endsWith ''https://host.example'' ''/''"
    by (simp add: endsWith_def)
  have q: "resolveUrl ?q = Inr ''https://host.example/api/episerver/v3.0/content/5''"
    by code_simp
  note t = base_url_single_slash [of "''https://host.example''" "''https://host.example''" ?p]
  note t2 = base_url_single_slash [of "''https://host.example/''" "''https://host.example''" ?q
      "''https://host.example/api/episerver/v3.0/content/5''"]
  from t t2 n q show ?thesis by (simp add: plainParams_def)
qed

lemma delivery_url_request:
  "resolveUrl p = Inr u \<Longrightarrow>
     \<exists>res. cmsContentDelivery pf p =
        (res, [\<lparr>req_url = u, req_method = ''GET'', req_headers = deliveryHeaders p\<rparr>])"
  by (simp add: cmsContentDelivery_def Let_def)


section \<open>The two identifiers of get-children\<close>



lemma top_zero_omitted:
  "dispatch (p\<lparr>top_param := Some 0\<rparr>) = dispatch (p\<lparr>top_param := None\<rparr>)"
  by (simp add: dispatch_def)

section \<open>Presence of a parameter\<close>

text \<open>
  Claim C10. \<open>cmsContentDelivery\<close> decides the presence of a parameter by its truthiness.
  A \<open>siteId\<close>, \<open>contentReference\<close>, \<open>contentGuid\<close> or \<open>contentUrl\<close> supplied as the empty
  string is treated as absent: the operation that requires it throws its
  missing-parameter error before any request. For get-children an empty
  \<open>contentReference\<close> falls through to \<open>contentGuid\<close> (the URL is the one of a call
  without \<open>contentReference\<close>), and an empty \<open>contentGuid\<close> with no usable
  \<open>contentReference\<close> throws. A \<open>top\<close> of \<open>0\<close> gives the URL of a call without \<open>top\<close>: no
  \<open>top\<close> query parameter is written, only the common ones.
\<close>

theorem presence_is_truthiness:
  "(operation p = ''get-site-by-id'' \<and> siteId p = Some [] \<longrightarrow>
      cmsContentDelivery pf p =
        (Inl (JsError ''siteId is required for get-site-by-id operation''), []))
   \<and> (operation p = ''get-content-by-reference'' \<and> contentReference p = Some [] \<longrightarrow>
      cmsContentDelivery pf p =
        (Inl (JsError ''contentReference is required for get-content-by-reference operation''), []))
   \<and> (operation p = ''get-content-by-guid'' \<and> contentGuid p = Some [] \<longrightarrow>
      cmsContentDelivery pf p =
        (Inl (JsError ''contentGuid is required for get-content-by-guid operation''), []))
   \<and> (operation p = ''get-content-by-url'' \<and> contentUrl p = Some [] \<longrightarrow>
      cmsContentDelivery pf p =
        (Inl (JsError ''contentUrl is required for get-content-by-url operation''), []))
   \<and> (operation p = ''get-children'' \<and> contentReference p = Some [] \<and> truthy (contentGuid p) \<longrightarrow>
      resolveUrl p = resolveUrl (p\<lparr>contentReference := None\<rparr>)
      \<and> (\<exists>q. resolveUrl p =
            Inr (baseUrl (cmsUrl p) @ ''/api/episerver/v3.0/content/'' @ str (contentGuid p)
                 @ ''/children'' @ q)))
   \<and> (operation p = ''get-children'' \<and> \<not> truthy (contentReference p) \<and> contentGuid p = Some [] \<longrightarrow>
      cmsContentDelivery pf p =
        (Inl (JsError
           ''Either contentReference or contentGuid is required for get-children operation''), []))
   \<and> resolveUrl (p\<lparr>top_param := Some 0\<rparr>) = resolveUrl (p\<lparr>top_param := None\<rparr>)
   \<and> (operation p = ''get-children'' \<and> top_param p = Some 0 \<and> resolveUrl p = Inr u \<longrightarrow>
      (\<exists>apiPath. u = baseUrl (cmsUrl p) @ apiPath @ queryString (commonParams p)))"
proof (intro conjI impI)
  assume "operation p = ''get-site-by-id'' \<and> siteId p = Some []"
  then show "cmsContentDelivery pf p =
        (Inl (JsError ''siteId is required for get-site-by-id operation''), [])"
    by (intro delivery_preflight resolveUrl_dispatch_Inl) (simp add: dispatch_def)
next
  assume "operation p = ''get-content-by-reference'' \<and> contentReference p = Some []"
  then show "cmsContentDelivery pf p =
        (Inl (JsError ''contentReference is required for get-content-by-reference operation''), [])"
    by (intro delivery_preflight resolveUrl_dispatch_Inl) (simp add: dispatch_def)
next
  assume "operation p = ''get-content-by-guid'' \<and> contentGuid p = Some []"
  then show "cmsContentDelivery pf p =
        (Inl (JsError ''contentGuid is required for get-content-by-guid operation''), [])"
    by (intro delivery_preflight resolveUrl_dispatch_Inl) (simp add: dispatch_def)
next
  assume "operation p = ''get-content-by-url'' \<and> contentUrl p = Some []"
  then show "cmsContentDelivery pf p =
        (Inl (JsError ''contentUrl is required for get-content-by-url operation''), [])"
    by (intro delivery_preflight resolveUrl_dispatch_Inl) (simp add: dispatch_def)
next
  assume a: "operation p = ''get-children'' \<and> contentReference p = Some [] \<and> truthy (contentGuid p)"
  then have d: "dispatch p =
      Inr (''/api/episerver/v3.0/content/'' @ str (contentGuid p) @ ''/children'',
           if truthyNum (top_param p) then [''top='' @ strNum (top_param p)] else [])"
    by (simp add: dispatch_def)
  from a have d': "dispatch (p\<lparr>contentReference := None\<rparr>) = dispatch p"
    by (simp add: dispatch_def)
  have c: "commonParams (p\<lparr>contentReference := None\<rparr>) = commonParams p"
    by (simp add: commonParams_def)
  show "resolveUrl p = resolveUrl (p\<lparr>contentReference := None\<rparr>)"
    using d d' c by (simp add: resolveUrl_def)
  show "\<exists>q. resolveUrl p =
      Inr (baseUrl (cmsUrl p) @ ''/api/episerver/v3.0/content/'' @ str (contentGuid p)
           @ ''/children'' @ q)"
    using d by (simp add: resolveUrl_def)
next
  assume "operation p = ''get-children'' \<and> \<not> truthy (contentReference p) \<and> contentGuid p = Some []"
  then show "cmsContentDelivery pf p =
        (Inl (JsError
           ''Either contentReference or contentGuid is required for get-children operation''), [])"
    by (intro delivery_preflight resolveUrl_dispatch_Inl) (simp add: dispatch_def)
next
  show "resolveUrl (p\<lparr>top_param := Some 0\<rparr>) = resolveUrl (p\<lparr>top_param := None\<rparr>)"
    using top_zero_omitted [of p]
    by (simp add: resolveUrl_def commonParams_def split: sum.splits)
next
  assume a: "operation p = ''get-children'' \<and> top_param p = Some 0 \<and> resolveUrl p = Inr u"
  then obtain apiPath ops where d: "dispatch p = Inr (apiPath, ops)"
    and u: "u = baseUrl (cmsUrl p) @ apiPath @ queryString (ops @ commonParams p)"
    using resolveUrl_Inr by blast
  from a d have "ops = []"
    by (auto simp: dispatch_def split: if_splits)
  with u show "\<exists>apiPath. u = baseUrl (cmsUrl p) @ apiPath @ queryString (commonParams p)"
    by auto
qed

theorem presence_is_truthiness_witness:
  "cmsContentDelivery downPlatform ((plainParams ''get-site-by-id'')\<lparr>siteId := Some []\<rparr>)
     = (Inl (JsError ''siteId is required for get-site-by-id operation''), [])
   \<and> cmsContentDelivery downPlatform
        ((plainParams ''get-content-by-url'')\<lparr>contentUrl := Some []\<rparr>)
     = (Inl (JsError ''contentUrl is required for get-content-by-url operation''), [])
   \<and> resolveUrl ((plainParams ''get-children'')
        \<lparr>contentReference := Some [], contentGuid := Some ''abc-123''\<rparr>)
     = Inr ''https://host.example/api/episerver/v3.0/content/abc-123/children''
   \<and> resolveUrl ((plainParams ''get-children'')
        \<lparr>contentGuid := Some ''abc-123'', top_param := Some 0\<rparr>)
     = Inr ''https://host.example/api/episerver/v3.0/content/abc-123/children''"
proof -
  let ?a = "(plainParams ''get-site-by-id'')\<lparr>siteId := Some []\<rparr>"
  let ?b = "(plainParams ''get-content-by-url'')\<lparr>contentUrl := Some []\<rparr>"
  let ?c = "(plainParams ''get-children'')
        \<lparr>contentReference := Some [], contentGuid := Some ''abc-123''\<rparr>"
  let ?d = "(plainParams ''get-children'')\<lparr>contentGuid := Some ''abc-123''\<rparr>"
  have n: "resolveUrl ((plainParams ''get-children'')
        \<lparr>contentGuid := Some ''abc-123'', contentReference := None\<rparr>)
     = Inr ''https://host.example/api/episerver/v3.0/content/abc-123/children''"
    by code_simp
  have m: "resolveUrl ((plainParams ''get-children'')
        \<lparr>contentGuid := Some ''abc-123'', top_param := None\<rparr>)
     = Inr ''https://host.example/api/episerver/v3.0/content/abc-123/children''"
    by code_simp
  from presence_is_truthiness [of ?a downPlatform]
  have 1: "cmsContentDelivery downPlatform ?a
     = (Inl (JsError ''siteId is required for get-site-by-id operation''), [])"
    by (simp add: plainParams_def)
  from presence_is_truthiness [of ?b downPlatform]
  have 2: "cmsContentDelivery downPlatform ?b
     = (Inl (JsError ''contentUrl is required for get-content-by-url operation''), [])"
    by (simp add: plainParams_def)
  from presence_is_truthiness [of ?c downPlatform]
  have 3: "resolveUrl ?c = resolveUrl (?c\<lparr>contentReference := None\<rparr>)"
    by (simp add: plainParams_def)
  from presence_is_truthiness [of ?d downPlatform]
  have 4: "resolveUrl (?d\<lparr>top_param := Some 0\<rparr>) = resolveUrl (?d\<lparr>top_param := None\<rparr>)"
    by blast
  from 1 2 3 4 n m show ?thesis by simp
qed

section \<open>Facts about the response normalizer\<close>



lemma distinct_fold_update:
  "distinct (map fst acc) \<Longrightarrow>
     distinct (map fst (fold (\<lambda>(key, v) acc. AList.update key v acc) hs acc))"
proof (induction hs arbitrary: acc)
  case Nil
  then show ?case by simp
next
  case (Cons h hs)
  then show ?case by (cases h) (simp add: distinct_update)
qed

lemma captureHeaders_distinct: "distinct (map fst (captureHeaders hs))"
  by (simp add: captureHeaders_def distinct_fold_update)

lemma normalize_Inr:
  assumes "normalize pf u r = Inr env"
  shows "\<exists>b. decodeBody pf r = Inr b
     \<and> env = (if ok r
          then \<lparr>success = True, status = resp_status r, statusText = resp_statusText r,
                 data = Some b, error = None, url = u,
                 headers = Some (captureHeaders (resp_headers r))\<rparr>
          else \<lparr>success = False, status = resp_status r, statusText = resp_statusText r,
                 data = None, error = Some b, url = u, headers = None\<rparr>)"
  using assms by (auto simp: normalize_def Let_def split: sum.splits if_splits)

lemma catchWrap_Inr: "catchWrap label res = Inr v \<longleftrightarrow> res = Inr v"
  by (cases res) (simp_all add: catchWrap_def)

lemma tryBlock_Inr:
  assumes "tryBlock pf req = Inr env"
  shows "\<exists>r. fetch pf req = Inr r \<and> normalize pf (req_url req) r = Inr env"
  using assms by (auto simp: tryBlock_def split: sum.splits)

lemma delivery_Inr:
  assumes "cmsContentDelivery pf p = (Inr env, calls)"
  shows "\<exists>u r. resolveUrl p = Inr u
     \<and> calls = [\<lparr>req_url = u, req_method = ''GET'', req_headers = deliveryHeaders p\<rparr>]
     \<and> fetch pf \<lparr>req_url = u, req_method = ''GET'', req_headers = deliveryHeaders p\<rparr> = Inr r
     \<and> normalize pf u r = Inr env"
proof (cases "resolveUrl p")
  case (Inl e)
  with assms show ?thesis by (simp add: cmsContentDelivery_def)
next
  case (Inr u)
  let ?req = "\<lparr>req_url = u, req_method = ''GET'', req_headers = deliveryHeaders p\<rparr>"
  from assms Inr have c: "calls = [?req]"
    and t: "catchWrap ''CMS Content Delivery API call failed: '' (tryBlock pf ?req) = Inr env"
    by (simp_all add: cmsContentDelivery_def Let_def)
  from t have "tryBlock pf ?req = Inr env" by (simp add: catchWrap_Inr)
  then obtain r where "fetch pf ?req = Inr r" "normalize pf u r = Inr env"
    using tryBlock_Inr by fastforce
  with Inr c show ?thesis by blast
qed


lemma normalize_returns:
  assumes "decodeBody pf r = Inr b"
  shows "normalize pf u r = Inr
     (if ok r
      then \<lparr>success = True, status = resp_status r, statusText = resp_statusText r,
             data = Some b, error = None, url = u,
             headers = Some (captureHeaders (resp_headers r))\<rparr>
      else \<lparr>success = False, status = resp_status r, statusText = resp_statusText r,
             data = None, error = Some b, url = u, headers = None\<rparr>)"
  using assms by (simp add: normalize_def Let_def)

lemma delivery_returns:
  assumes "resolveUrl p = Inr u"
    and "fetch pf \<lparr>req_url = u, req_method = ''GET'', req_headers = deliveryHeaders p\<rparr> = Inr r"
    and "normalize pf u r = Inr env"
  shows "cmsContentDelivery pf p =
     (Inr env, [\<lparr>req_url = u, req_method = ''GET'', req_headers = deliveryHeaders p\<rparr>])"
  using assms by (simp add: cmsContentDelivery_def Let_def tryBlock_def catchWrap_def)

section \<open>The envelope\<close>

text \<open>
  Claim C1. Whenever \<open>cmsContentDelivery\<close> returns an envelope, it made one request,
  \<open>fetch\<close> answered it with a response, and the envelope carries the status of that
  response; \<open>success\<close> is true exactly when that status lies in 200 to 299; a successful
  envelope has \<open>data\<close> and no \<open>error\<close>, an unsuccessful one has \<open>error\<close> and no \<open>data\<close>;
  and in both cases \<open>url\<close> is the resolved URL, the one the request went to. And an
  envelope is returned for every response whose body decodes: with the decoded body as
  \<open>data\<close> for a status in 200 to 299 and as \<open>error\<close> for any other status.
\<close>

theorem envelope_success_iff_2xx:
  "(cmsContentDelivery pf p = (Inr env, calls) \<longrightarrow>
      (\<exists>req r. calls = [req] \<and> fetch pf req = Inr r \<and> resolveUrl p = Inr (req_url req)
         \<and> status env = resp_status r
         \<and> (success env \<longleftrightarrow> 200 \<le> status env \<and> status env \<le> 299)
         \<and> (success env \<longrightarrow> data env \<noteq> None \<and> error env = None)
         \<and> (\<not> success env \<longrightarrow> error env \<noteq> None \<and> data env = None)
         \<and> url env = req_url req))
   \<and> (resolveUrl p = Inr u
        \<and> fetch pf \<lparr>req_url = u, req_method = ''GET'', req_headers = deliveryHeaders p\<rparr> = Inr r'
        \<and> decodeBody pf r' = Inr b \<longrightarrow>
      (\<exists>env'. fst (cmsContentDelivery pf p) = Inr env'
         \<and> status env' = resp_status r' \<and> url env' = u
         \<and> (if 200 \<le> resp_status r' \<and> resp_status r' \<le> 299
             then success env' \<and> data env' = Some b \<and> error env' = None
             else \<not> success env' \<and> error env' = Some b \<and> data env' = None)))"
proof (intro conjI impI)
  assume asm: "cmsContentDelivery pf p = (Inr env, calls)"
  from delivery_Inr [OF asm] obtain u r where u: "resolveUrl p = Inr u"
    and c: "calls = [\<lparr>req_url = u, req_method = ''GET'', req_headers = deliveryHeaders p\<rparr>]"
    and f: "fetch pf \<lparr>req_url = u, req_method = ''GET'', req_headers = deliveryHeaders p\<rparr> = Inr r"
    and n: "normalize pf u r = Inr env"
    by blast
  from normalize_Inr [OF n] obtain b where
    env: "env = (if ok r
          then \<lparr>success = True, status = resp_status r, statusText = resp_statusText r,
                 data = Some b, error = None, url = u,
                 headers = Some (captureHeaders (resp_headers r))\<rparr>
          else \<lparr>success = False, status = resp_status r, statusText = resp_statusText r,
                 data = None, error = Some b, url = u, headers = None\<rparr>)"
    by blast
  have s: "status env = resp_status r" and a: "url env = u"
    and b: "success env \<longleftrightarrow> ok r"
    and d: "success env \<longrightarrow> data env \<noteq> None \<and> error env = None"
    and e: "\<not> success env \<longrightarrow> error env \<noteq> None \<and> data env = None"
    by (simp_all add: env)
  from b s have "success env \<longleftrightarrow> 200 \<le> status env \<and> status env \<le> 299"
    by (simp add: ok_def)
  with c f u s a d e
  show "\<exists>req r. calls = [req] \<and> fetch pf req = Inr r \<and> resolveUrl p = Inr (req_url req)
         \<and> status env = resp_status r
         \<and> (success env \<longleftrightarrow> 200 \<le> status env \<and> status env \<le> 299)
         \<and> (success env \<longrightarrow> data env \<noteq> None \<and> error env = None)
         \<and> (\<not> success env \<longrightarrow> error env \<noteq> None \<and> data env = None)
         \<and> url env = req_url req"
    by simp
next
  assume asm: "resolveUrl p = Inr u
        \<and> fetch pf \<lparr>req_url = u, req_method = ''GET'', req_headers = deliveryHeaders p\<rparr> = Inr r'
        \<and> decodeBody pf r' = Inr b"
  let ?env = "if ok r'
      then \<lparr>success = True, status = resp_status r', statusText = resp_statusText r',
             data = Some b, error = None, url = u,
             headers = Some (captureHeaders (resp_headers r'))\<rparr>
      else \<lparr>success = False, status = resp_status r', statusText = resp_statusText r',
             data = None, error = Some b, url = u, headers = None\<rparr>"
  from asm have "normalize pf u r' = Inr ?env" by (intro normalize_returns) simp
  with asm have "cmsContentDelivery pf p =
     (Inr ?env, [\<lparr>req_url = u, req_method = ''GET'', req_headers = deliveryHeaders p\<rparr>])"
    by (intro delivery_returns) simp_all
  then have 1: "fst (cmsContentDelivery pf p) = Inr ?env" by simp
  have 2: "status ?env = resp_status r' \<and> url ?env = u
         \<and> (if 200 \<le> resp_status r' \<and> resp_status r' \<le> 299
             then success ?env \<and> data ?env = Some b \<and> error ?env = None
             else \<not> success ?env \<and> error ?env = Some b \<and> data ?env = None)"
    by (simp add: ok_def)
  from 1 2
  show "\<exists>env'. fst (cmsContentDelivery pf p) = Inr env'
         \<and> status env' = resp_status r' \<and> url env' = u
         \<and> (if 200 \<le> resp_status r' \<and> resp_status r' \<le> 299
             then success env' \<and> data env' = Some b \<and> error env' = None
             else \<not> success env' \<and> error env' = Some b \<and> data env' = None)"
    by blast
qed

theorem envelope_success_iff_2xx_witness:
  "cmsContentDelivery (mockPlatform (mockResponse 200 ''application/json'' ''null''))
       (plainParams ''get-all-sites'')
     = (Inr \<lparr>success = True, status = 200, statusText = ''OK'', data = Some (Json ()),
             error = None, url = ''https://host.example/api/episerver/v3.0/site'',
             headers = Some [(''content-type'', ''application/json''), (''x-powered-by'', ''cms'')]\<rparr>,
        [\<lparr>req_url = ''https://host.example/api/episerver/v3.0/site'', req_method = ''GET'',
          req_headers = [(''Accept'', ''application/json''), (''Content-Type'', ''application/json''),
                         (''Authorization'', ''Bearer secret'')]\<rparr>])
   \<and> cmsContentDelivery (mockPlatform (mockResponse 404 ''text/html'' ''gone''))
       (plainParams ''get-all-sites'')
     = (Inr \<lparr>success = False, status = 404, statusText = ''OK'', data = None,
             error = Some (Text ''gone''), url = ''https://host.example/api/episerver/v3.0/site'',
             headers = None\<rparr>,
        [\<lparr>req_url = ''https://host.example/api/episerver/v3.0/site'', req_method = ''GET'',
          req_headers = [(''Accept'', ''application/json''), (''Content-Type'', ''application/json''),
                         (''Authorization'', ''Bearer secret'')]\<rparr>])"
proof -
  have a: "cmsContentDelivery (mockPlatform (mockResponse 200 ''application/json'' ''null''))
       (plainParams ''get-all-sites'')
     = (Inr \<lparr>success = True, status = 200, statusText = ''OK'', data = Some (Json ()),
             error = None, url = ''https://host.example/api/episerver/v3.0/site'',
             headers = Some [(''content-type'', ''application/json''), (''x-powered-by'', ''cms'')]\<rparr>,
        [\<lparr>req_url = ''https://host.example/api/episerver/v3.0/site'', req_method = ''GET'',
          req_headers = [(''Accept'', ''application/json''), (''Content-Type'', ''application/json''),
                         (''Authorization'', ''Bearer secret'')]\<rparr>])"
    by code_simp
  have b: "cmsContentDelivery (mockPlatform (mockResponse 404 ''text/html'' ''gone''))
       (plainParams ''get-all-sites'')
     = (Inr \<lparr>success = False, status = 404, statusText = ''OK'', data = None,
             error = Some (Text ''gone''), url = ''https://host.example/api/episerver/v3.0/site'',
             headers = None\<rparr>,
        [\<lparr>req_url = ''https://host.example/api/episerver/v3.0/site'', req_method = ''GET'',
          req_headers = [(''Accept'', ''application/json''), (''Content-Type'', ''application/json''),
                         (''Authorization'', ''Bearer secret'')]\<rparr>])"
    by code_simp
  from envelope_success_iff_2xx [THEN conjunct1, rule_format, OF a]
       envelope_success_iff_2xx [THEN conjunct1, rule_format, OF b] a b
  show ?thesis by simp
qed


section \<open>Response headers in the envelope\<close>



section \<open>Decoding the body\<close>

lemma decodeBody_json_parsed:
  assumes "isJson r" and "consumeBody pf r False = (Inr t, u)" and "JSON_parse pf t = Inr v"
  shows "decodeBody pf r = Inr (Json v)"
  using assms by (simp add: decodeBody_def json_body_def)

lemma decodeBody_json_fallback:
  assumes "isJson r" and "resp_body r = Some b"
    and "b = Inl e \<or> (\<exists>t. b = Inr t \<and> JSON_parse pf t = Inl e)"
  shows "decodeBody pf r = Inl (bodyUnusable pf)"
  using assms
  by (auto simp: decodeBody_def json_body_def text_body_def consumeBody_def)

lemma decodeBody_json_null_body:
  assumes "isJson r" and "resp_body r = None" and "JSON_parse pf [] = Inl e"
  shows "decodeBody pf r = Inr (Text [])"
  using assms
  by (simp add: decodeBody_def json_body_def text_body_def consumeBody_def)

lemma decodeBody_text:
  assumes "\<not> isJson r"
  shows "decodeBody pf r =
     (case resp_body r of
        None \<Rightarrow> Inr (Text [])
      | Some (Inl e) \<Rightarrow> Inl e
      | Some (Inr t) \<Rightarrow> Inr (Text t))"
  using assms
  by (simp add: decodeBody_def text_body_def consumeBody_def split: option.splits sum.splits)

text \<open>
  Claim C5 says that a body declared as JSON that does not parse is returned as raw
  text and that decoding never throws. The code tries that and fails: its \<open>catch\<close>
  calls \<open>response.text()\<close> after \<open>response.json()\<close> has read the body, and the second
  read of a body is rejected. Evaluated on a response with status 200, content type
  \<open>application/json\<close> and the body \<open><html>oops</html>\<close>, both adapters throw the
  wrapped rejection of the second read instead of returning an envelope whose \<open>data\<close> is
  the raw text.
\<close>

theorem json_fallback_reads_body_twice:
  "isJson (mockResponse 200 ''application/json'' ''<html>oops</html>'')
   \<and> JSON_parse (mockPlatform (mockResponse 200 ''application/json'' ''<html>oops</html>''))
        ''<html>oops</html>'' = Inl (JsError ''Unexpected token in JSON'')
   \<and> cmsContentDelivery (mockPlatform (mockResponse 200 ''application/json'' ''<html>oops</html>''))
       (plainParams ''get-all-sites'')
     = (Inl (JsError ''CMS Content Delivery API call failed: Body is unusable''),
        [\<lparr>req_url = ''https://host.example/api/episerver/v3.0/site'', req_method = ''GET'',
          req_headers = [(''Accept'', ''application/json''), (''Content-Type'', ''application/json''),
                         (''Authorization'', ''Bearer secret'')]\<rparr>])
   \<and> cmsContentManifest (mockPlatform (mockResponse 200 ''application/json'' ''<html>oops</html>''))
       \<lparr>m_cmsUrl = ''https://host.example'', m_authToken = None, includeSystemTypes = None\<rparr>
     = (Inl (JsError ''CMS Content Manifest API call failed: Body is unusable''),
        [\<lparr>req_url = ''https://host.example/api/episerver/v3.0/contentmanifest'', req_method = ''GET'',
          req_headers = [(''Accept'', ''application/json''), (''Content-Type'', ''application/json'')]\<rparr>])"
  by code_simp

section \<open>Failures of the transport and of decoding\<close>



section \<open>Facts about percent-encoding\<close>







section \<open>The query string\<close>

lemma destructure_cong:
  assumes "map_of ob = map_of ob'"
  shows "destructure ob = destructure ob'"
proof -
  from assms have g: "getString ob = getString ob'" and n: "getNumber ob = getNumber ob'"
    by (simp_all add: fun_eq_iff getString_def getNumber_def)
  show ?thesis unfolding destructure_def g n ..
qed

lemma dispatch_query:
  assumes "dispatch p = Inr (apiPath, ops)"
  shows "ops =
     (if operation p = ''get-content-by-url''
      then [''contentUrl='' @ encodeURIComponent (str (contentUrl p))] else [])
     @ (if operation p = ''get-children'' \<and> truthyNum (top_param p)
        then [''top='' @ strNum (top_param p)] else [])"
  using assms by (auto simp: dispatch_def split: if_splits)

text \<open>
  Claim C6. The query parameters of a resolved URL stand in a fixed order that depends
  on the values of the parameters only: first the parameter of the operation itself
  (\<open>contentUrl\<close> for get-content-by-url, \<open>top\<close> for get-children), then \<open>expand\<close>, then
  \<open>select\<close>, each written only when the adapter finds it present. The order in which the
  caller wrote the properties of the parameter object plays no part: two objects with
  the same properties in different orders destructure to the same parameters.
\<close>

theorem query_order_declared:
  "(resolveUrl p = Inr u \<longrightarrow>
      (\<exists>apiPath ops. dispatch p = Inr (apiPath, ops)
         \<and> u = baseUrl (cmsUrl p) @ apiPath @ queryString
             ((if operation p = ''get-content-by-url''
               then [''contentUrl='' @ encodeURIComponent (str (contentUrl p))] else [])
              @ (if operation p = ''get-children'' \<and> truthyNum (top_param p)
                 then [''top='' @ strNum (top_param p)] else [])
              @ (if truthy (expand p)
                 then [''expand='' @ encodeURIComponent (str (expand p))] else [])
              @ (if truthy (select p)
                 then [''select='' @ encodeURIComponent (str (select p))] else []))))
   \<and> (distinct (map fst ob) \<and> distinct (map fst ob') \<and> set ob = set ob' \<longrightarrow>
        destructure ob = destructure ob')"
proof (intro conjI impI)
  assume "resolveUrl p = Inr u"
  then obtain apiPath ops where d: "dispatch p = Inr (apiPath, ops)"
    and u: "u = baseUrl (cmsUrl p) @ apiPath @ queryString (ops @ commonParams p)"
    using resolveUrl_Inr by blast
  from dispatch_query [OF d] u d
  show "\<exists>apiPath ops. dispatch p = Inr (apiPath, ops)
         \<and> u = baseUrl (cmsUrl p) @ apiPath @ queryString
             ((if operation p = ''get-content-by-url''
               then [''contentUrl='' @ encodeURIComponent (str (contentUrl p))] else [])
              @ (if operation p = ''get-children'' \<and> truthyNum (top_param p)
                 then [''top='' @ strNum (top_param p)] else [])
              @ (if truthy (expand p)
                 then [''expand='' @ encodeURIComponent (str (expand p))] else [])
              @ (if truthy (select p)
                 then [''select='' @ encodeURIComponent (str (select p))] else []))"
    by (simp add: commonParams_def)
next
  assume "distinct (map fst ob) \<and> distinct (map fst ob') \<and> set ob = set ob'"
  then have "map_of ob = map_of ob'"
    by (simp add: map_of_inject_set)
  then show "destructure ob = destructure ob'" by (rule destructure_cong)
qed

theorem query_order_declared_witness:
  "destructure [(''select'', Str ''name''), (''top'', Num 10), (''expand'', Str ''*''),
                (''contentGuid'', Str ''abc-123''), (''operation'', Str ''get-children''),
                (''authToken'', Str ''secret''), (''cmsUrl'', Str ''https://host.example'')]
     = destructure [(''cmsUrl'', Str ''https://host.example''), (''authToken'', Str ''secret''),
                (''operation'', Str ''get-children''), (''contentGuid'', Str ''abc-123''),
                (''expand'', Str ''*''), (''select'', Str ''name''), (''top'', Num 10)]
   \<and> destructure [(''select'', Str ''name''), (''top'', Num 10), (''expand'', Str ''*''),
                (''contentGuid'', Str ''abc-123''), (''operation'', Str ''get-children''),
                (''authToken'', Str ''secret''), (''cmsUrl'', Str ''https://host.example'')]
     = Some ((plainParams ''get-children'')
          \<lparr>contentGuid := Some ''abc-123'', expand := Some ''*'', select := Some ''name'',
            top_param := Some 10\<rparr>)
   \<and> resolveUrl ((plainParams ''get-children'')
          \<lparr>contentGuid := Some ''abc-123'', expand := Some ''*'', select := Some ''name'',
            top_param := Some 10\<rparr>)
     = Inr ''https://host.example/api/episerver/v3.0/content/abc-123/children?top=10&expand=*&select=name''
   \<and> resolveUrl ((plainParams ''get-content-by-url'')
          \<lparr>select := Some ''name,url'', expand := Some ''a b'', contentUrl := Some ''https://x.y/z?q=1''\<rparr>)
     = Inr ''https://host.example/api/episerver/v3.0/content?contentUrl=https%3A%2F%2Fx.y%2Fz%3Fq%3D1&expand=a%20b&select=name%2Curl''"
proof -
  let ?ob = "[(''select'', Str ''name''), (''top'', Num 10), (''expand'', Str ''*''),
                (''contentGuid'', Str ''abc-123''), (''operation'', Str ''get-children''),
                (''authToken'', Str ''secret''), (''cmsUrl'', Str ''https://host.example'')]"
  let ?ob' = "[(''cmsUrl'', Str ''https://host.example''), (''authToken'', Str ''secret''),
                (''operation'', Str ''get-children''), (''contentGuid'', Str ''abc-123''),
                (''expand'', Str ''*''), (''select'', Str ''name''), (''top'', Num 10)]"
  let ?p = "(plainParams ''get-children'')
          \<lparr>contentGuid := Some ''abc-123'', expand := Some ''*'', select := Some ''name'',
            top_param := Some 10\<rparr>"
  let ?q = "(plainParams ''get-content-by-url'')
          \<lparr>select := Some ''name,url'', expand := Some ''a b'', contentUrl := Some ''https://x.y/z?q=1''\<rparr>"
  have h: "distinct (map fst ?ob) \<and> distinct (map fst ?ob') \<and> set ?ob = set ?ob'"
    by auto
  have 1: "destructure ?ob = destructure ?ob'"
    using query_order_declared [where ob = ?ob and ob' = ?ob'] h by blast
  have 2: "destructure ?ob = Some ?p"
    by (simp add: destructure_def getString_def getNumber_def plainParams_def)
  have 3: "resolveUrl ?p
     = Inr ''https://host.example/api/episerver/v3.0/content/abc-123/children?top=10&expand=*&select=name''"
    by code_simp
  have 4: "resolveUrl ?q
     = Inr ''https://host.example/api/episerver/v3.0/content?contentUrl=https%3A%2F%2Fx.y%2Fz%3Fq%3D1&expand=a%20b&select=name%2Curl''"
    by code_simp
  from 1 2 3 4 show ?thesis by simp
qed





end
